theory Spec2Isabelle
  imports Complex_Main
begin

text \<open>
  The repository is a survey analyser in two halves: a React client (\<open>frontend/src/App.tsx\<close>)
  that uploads a dataset with a few options and shows the results, and a backend that
  recodes the dataset, aggregates weighted prevalences and fits a weighted logistic
  regression. The first part of this theory embeds the client from its source; the second
  models the backend's analytic core; the properties follow, each under the number of the
  claim it settles.
\<close>

section \<open>The client: frontend/src/App.tsx\<close>

subsection \<open>JavaScript values, form data, requests and responses\<close>

text \<open>
  The values \<open>res.json()\<close> can deliver, plus \<open>undefined\<close>, which a property read yields
  for an absent property. A JSON number is held by its numeric value, an object by the
  list of its own properties (each name once).
\<close>

datatype js =
    JUndefined
  | JNull
  | JBool bool
  | JNum real
  | JStr string
  | JArr "js list"
  | JObj "(string \<times> js) list"

datatype exn = TypeError | SyntaxError | OtherError

text \<open>JavaScript truthiness, as used by \<open>if (x)\<close>, \<open>x || y\<close> and \<open>x && y\<close>.\<close>

fun truthy :: "js \<Rightarrow> bool" where
  "truthy JUndefined = False"
| "truthy JNull = False"
| "truthy (JBool b) = b"
| "truthy (JNum x) = (x \<noteq> 0)"
| "truthy (JStr s) = (s \<noteq> [])"
| "truthy (JArr xs) = True"
| "truthy (JObj fs) = True"

text \<open>
  \<open>v.name\<close> and \<open>v['name']\<close> for a property name that is neither an array index nor
  the name of a built-in method (the client reads \<open>table\<close>, \<open>length\<close>, \<open>group\<close>, \<open>prev\<close>,
  \<open>term\<close>, \<open>OR\<close>, \<open>OR_low\<close>, \<open>OR_high\<close> and \<open>P>|z|\<close>): reading a property of \<open>null\<close> or
  \<open>undefined\<close> throws a TypeError, an absent property reads as \<open>undefined\<close>. Arrays and
  strings have their \<open>length\<close> (for a string the model counts the characters of the HOL
  string, which is the JavaScript length for ASCII text).
\<close>

fun get_field :: "js \<Rightarrow> string \<Rightarrow> exn + js" where
  "get_field JUndefined k = Inl TypeError"
| "get_field JNull k = Inl TypeError"
| "get_field (JObj fs) k = Inr (case map_of fs k of Some v \<Rightarrow> v | None \<Rightarrow> JUndefined)"
| "get_field (JArr xs) k = Inr (if k = ''length'' then JNum (real (length xs)) else JUndefined)"
| "get_field (JStr s) k = Inr (if k = ''length'' then JNum (real (length s)) else JUndefined)"
| "get_field (JBool b) k = Inr JUndefined"
| "get_field (JNum x) k = Inr JUndefined"

text \<open>\<open>v[0]\<close>.\<close>

fun get_first :: "js \<Rightarrow> exn + js" where
  "get_first JUndefined = Inl TypeError"
| "get_first JNull = Inl TypeError"
| "get_first (JObj fs) = Inr (case map_of fs ''0'' of Some v \<Rightarrow> v | None \<Rightarrow> JUndefined)"
| "get_first (JArr xs) = Inr (case xs of [] \<Rightarrow> JUndefined | x # _ \<Rightarrow> x)"
| "get_first (JStr s) = Inr (case s of [] \<Rightarrow> JUndefined | c # _ \<Rightarrow> JStr [c])"
| "get_first (JBool b) = Inr JUndefined"
| "get_first (JNum x) = Inr JUndefined"

text \<open>\<open>a || b\<close> on values.\<close>

definition js_or :: "js \<Rightarrow> js \<Rightarrow> js" where
  "js_or a b = (if truthy a then a else b)"

datatype File = File (file_name: string) (file_bytes: "nat list")

datatype Blob = Blob (blob_bytes: "nat list")

datatype form_value = FFile File | FText string

text \<open>A \<open>FormData\<close> is the list of its entries in the order of the \<open>append\<close> calls.\<close>

type_synonym FormData = "(string \<times> form_value) list"

definition fd_append :: "FormData \<Rightarrow> string \<Rightarrow> form_value \<Rightarrow> FormData" where
  "fd_append fd k v = fd @ [(k, v)]"

text \<open>\<open>if (s) fd.append(k, s)\<close> for a string \<open>s\<close>: the empty string is falsy.\<close>

definition fd_append_if :: "FormData \<Rightarrow> string \<Rightarrow> string \<Rightarrow> FormData" where
  "fd_append_if fd k s = (if s \<noteq> [] then fd_append fd k (FText s) else fd)"

record request =
  url :: string
  http_method :: string
  body :: FormData

text \<open>
  A response is held by what the client can ask of it: \<open>res.json()\<close> and \<open>res.blob()\<close>,
  each of which resolves or rejects. The client never looks at the status.
\<close>

record response =
  json :: "exn + js"
  blob :: "exn + Blob"

text \<open>
  The world outside the component: the build-time variable \<open>VITE_API_BASE\<close>, the server
  behind \<open>fetch\<close> (which resolves to a response or rejects), and \<open>URL.createObjectURL\<close>.
\<close>

record env =
  VITE_API_BASE :: "string option"
  fetch :: "request \<Rightarrow> exn + response"
  createObjectURL :: "Blob \<Rightarrow> string"

text \<open>\<open>const API_BASE = import.meta.env.VITE_API_BASE || 'http://localhost:8000'\<close>\<close>

definition API_BASE :: "env \<Rightarrow> string" where
  "API_BASE e =
     (case VITE_API_BASE e of
        None \<Rightarrow> ''http://localhost:8000''
      | Some b \<Rightarrow> (if b \<noteq> [] then b else ''http://localhost:8000''))"

subsection \<open>Component state\<close>

text \<open>
  The eight \<open>useState\<close> cells of \<open>App\<close> (\<open>file\<close> and \<open>by\<close> are reserved words
  here, hence the primes). \<open>prevRows\<close> and \<open>orRows\<close> are declared
  \<open>PrevRow[] | null\<close> and \<open>ORRow[] | null\<close>, but they receive whatever the response
  decoded to, so at run time they hold a JavaScript value, \<open>JNull\<close> for \<open>null\<close>.
\<close>

record app_state =
  file' :: "File option"
  by' :: string
  covars :: string
  weightCol :: string
  prevRows :: js
  orRows :: js
  plotUrl :: string
  busy :: bool

definition initial_state :: app_state where
  "initial_state =
     \<lparr> file' = None, by' = [], covars = [], weightCol = ''_LLCPWT'',
       prevRows = JNull, orRows = JNull, plotUrl = [], busy = False \<rparr>"



subsection \<open>Handlers as traces of effects\<close>

text \<open>
  A handler run is the sequence of what it does that is visible outside it, in program
  order (state setter calls, requests issued, the alert), and how its promise settles.
  \<open>Alert len first\<close> is the alert of \<open>runRecode\<close>, whose text is built from
  \<open>data.length\<close> and \<open>data[0]\<close>.
\<close>

datatype effect =
    SetBusy bool
  | SetPrevRows js
  | SetOrRows js
  | SetPlotUrl string
  | Fetch request
  | Alert js js

datatype outcome = Returned | Threw exn

record run =
  effects :: "effect list"
  outcome :: outcome

fun apply_effect :: "app_state \<Rightarrow> effect \<Rightarrow> app_state" where
  "apply_effect s (SetBusy b) = s\<lparr>busy := b\<rparr>"
| "apply_effect s (SetPrevRows v) = s\<lparr>prevRows := v\<rparr>"
| "apply_effect s (SetOrRows v) = s\<lparr>orRows := v\<rparr>"
| "apply_effect s (SetPlotUrl u) = s\<lparr>plotUrl := u\<rparr>"
| "apply_effect s (Fetch r) = s"
| "apply_effect s (Alert l x) = s"

text \<open>The component state once the handler has settled.\<close>

definition final_state :: "app_state \<Rightarrow> run \<Rightarrow> app_state" where
  "final_state s r = foldl apply_effect s (effects r)"

text \<open>The requests a run has issued, in order.\<close>

fun requests_of :: "effect list \<Rightarrow> request list" where
  "requests_of [] = []"
| "requests_of (Fetch r # es) = r # requests_of es"
| "requests_of (e # es) = requests_of es"

text \<open>
  \<open>setBusy(true); try { body } finally { setBusy(false) }\<close>: the body's effects between
  the two setter calls, whatever the body's outcome; the outcome is the body's.
\<close>

definition busy_try_finally :: "effect list \<times> outcome \<Rightarrow> run" where
  "busy_try_finally b = \<lparr> effects = SetBusy True # fst b @ [SetBusy False], outcome = snd b \<rparr>"

text \<open>The \<open>try\<close> block of \<open>runPrev\<close> (lines 24 to 38).\<close>

definition runPrev_try :: "env \<Rightarrow> File \<Rightarrow> string \<Rightarrow> string \<Rightarrow> effect list \<times> outcome" where
  "runPrev_try e f b w =
     (let fd = fd_append_if (fd_append_if (fd_append [] ''file'' (FFile f)) ''by'' b) ''weight_col'' w;
          req = \<lparr> url = API_BASE e @ ''/prevalence'', http_method = ''POST'', body = fd \<rparr>
      in case fetch e req of
           Inl x \<Rightarrow> ([Fetch req], Threw x)
         | Inr res \<Rightarrow>
             (case json res of
                Inl x \<Rightarrow> ([Fetch req], Threw x)
              | Inr data \<Rightarrow>
                  (let plotFD = fd_append_if (fd_append_if (fd_append [] ''file'' (FFile f)) ''by'' b) ''weight_col'' w;
                       plotReq = \<lparr> url = API_BASE e @ ''/plot/prevalence'', http_method = ''POST'', body = plotFD \<rparr>
                   in case fetch e plotReq of
                        Inl x \<Rightarrow> ([Fetch req, SetPrevRows data, Fetch plotReq], Threw x)
                      | Inr plotRes \<Rightarrow>
                          (case blob plotRes of
                             Inl x \<Rightarrow> ([Fetch req, SetPrevRows data, Fetch plotReq], Threw x)
                           | Inr bl \<Rightarrow>
                               ([Fetch req, SetPrevRows data, Fetch plotReq,
                                 SetPlotUrl (createObjectURL e bl)], Returned)))))"

definition runPrev :: "env \<Rightarrow> app_state \<Rightarrow> run" where
  "runPrev e s =
     (case file' s of
        None \<Rightarrow> \<lparr> effects = [], outcome = Returned \<rparr>
      | Some f \<Rightarrow> busy_try_finally (runPrev_try e f (by' s) (weightCol s)))"

text \<open>The \<open>try\<close> block of \<open>runLogit\<close> (lines 48 to 54).\<close>

definition runLogit_try :: "env \<Rightarrow> File \<Rightarrow> string \<Rightarrow> string \<Rightarrow> effect list \<times> outcome" where
  "runLogit_try e f c w =
     (let fd = fd_append_if (fd_append_if (fd_append [] ''file'' (FFile f)) ''covars_csv'' c) ''weight_col'' w;
          req = \<lparr> url = API_BASE e @ ''/logit'', http_method = ''POST'', body = fd \<rparr>
      in case fetch e req of
           Inl x \<Rightarrow> ([Fetch req], Threw x)
         | Inr res \<Rightarrow>
             (case json res of
                Inl x \<Rightarrow> ([Fetch req], Threw x)
              | Inr data \<Rightarrow>
                  (case get_field data ''table'' of
                     Inl x \<Rightarrow> ([Fetch req], Threw x)
                   | Inr t \<Rightarrow> ([Fetch req, SetOrRows (js_or t JNull)], Returned))))"

definition runLogit :: "env \<Rightarrow> app_state \<Rightarrow> run" where
  "runLogit e s =
     (case file' s of
        None \<Rightarrow> \<lparr> effects = [], outcome = Returned \<rparr>
      | Some f \<Rightarrow> busy_try_finally (runLogit_try e f (covars s) (weightCol s)))"

text \<open>The \<open>try\<close> block of \<open>runRecode\<close> (lines 64 to 70).\<close>

definition runRecode_try :: "env \<Rightarrow> File \<Rightarrow> string \<Rightarrow> effect list \<times> outcome" where
  "runRecode_try e f w =
     (let fd = fd_append_if (fd_append [] ''file'' (FFile f)) ''weight_col'' w;
          req = \<lparr> url = API_BASE e @ ''/recode'', http_method = ''POST'', body = fd \<rparr>
      in case fetch e req of
           Inl x \<Rightarrow> ([Fetch req], Threw x)
         | Inr res \<Rightarrow>
             (case json res of
                Inl x \<Rightarrow> ([Fetch req], Threw x)
              | Inr data \<Rightarrow>
                  (case get_field data ''length'' of
                     Inl x \<Rightarrow> ([Fetch req], Threw x)
                   | Inr len \<Rightarrow>
                       (case get_first data of
                          Inl x \<Rightarrow> ([Fetch req], Threw x)
                        | Inr first \<Rightarrow> ([Fetch req, Alert len first], Returned)))))"

definition runRecode :: "env \<Rightarrow> app_state \<Rightarrow> run" where
  "runRecode e s =
     (case file' s of
        None \<Rightarrow> \<lparr> effects = [], outcome = Returned \<rparr>
      | Some f \<Rightarrow> busy_try_finally (runRecode_try e f (weightCol s)))"


subsection \<open>The declared row types and the result tables\<close>

text \<open>
  \<open>type PrevRow = { group: string; prev: number }\<close> and
  \<open>type ORRow = { term: string; OR: number; OR_low: number; OR_high: number; ['P>|z|']: number }\<close>
  (\<open>term\<close> is a reserved word here, hence the prime; \<open>P_z\<close> is the field \<open>'P>|z|'\<close>).
\<close>

record PrevRow =
  group :: string
  prev :: real

record ORRow =
  term' :: string
  OR :: real
  OR_low :: real
  OR_high :: real
  P_z :: real

text \<open>The JavaScript object that is a value of the declared type.\<close>

definition js_of_PrevRow :: "PrevRow \<Rightarrow> js" where
  "js_of_PrevRow r = JObj [(''group'', JStr (group r)), (''prev'', JNum (prev r))]"

definition js_of_ORRow :: "ORRow \<Rightarrow> js" where
  "js_of_ORRow r =
     JObj [(''term'', JStr (term' r)), (''OR'', JNum (OR r)), (''OR_low'', JNum (OR_low r)),
           (''OR_high'', JNum (OR_high r)), (''P>|z|'', JNum (P_z r))]"

text \<open>
  What a table cell shows. Number formatting is kept symbolic: \<open>ToFixed x n\<close> stands for
  the text of \<open>x.toFixed(n)\<close>, \<open>ToExponential x n\<close> for \<open>x.toExponential(n)\<close>,
  \<open>StringOf v\<close> for \<open>String(v)\<close>, \<open>Child v\<close> for the value \<open>v\<close> placed as a child of
  the cell (what React makes of a child that is not text is not modelled), \<open>EnDash\<close> for
  the dash between the two confidence bounds.
\<close>

datatype piece = Child js | StringOf js | ToFixed real nat | ToExponential real nat | EnDash

text \<open>
  \<open>state && (table)\<close>: a falsy state is itself the value of the expression and no table
  is built; otherwise the table has one list of cells per element of the array.
\<close>

datatype rendered = Skipped js | Table "piece list list list"

text \<open>\<open>v.toFixed(n)\<close> and \<open>v.toExponential(n)\<close>: a TypeError unless \<open>v\<close> is a number.\<close>

fun toFixed :: "js \<Rightarrow> nat \<Rightarrow> exn + piece" where
  "toFixed (JNum x) n = Inr (ToFixed x n)"
| "toFixed v n = Inl TypeError"

fun toExponential :: "js \<Rightarrow> nat \<Rightarrow> exn + piece" where
  "toExponential (JNum x) n = Inr (ToExponential x n)"
| "toExponential v n = Inl TypeError"

text \<open>Sequencing of steps that may throw: the first exception ends the computation.\<close>

definition and_then :: "exn + 'a \<Rightarrow> ('a \<Rightarrow> exn + 'b) \<Rightarrow> exn + 'b" where
  "and_then m f = (case m of Inl x \<Rightarrow> Inl x | Inr v \<Rightarrow> f v)"

text \<open>\<open>xs.map(f)\<close> for a callback that may throw.\<close>

fun map_exn :: "('a \<Rightarrow> exn + 'b) \<Rightarrow> 'a list \<Rightarrow> exn + 'b list" where
  "map_exn f [] = Inr []"
| "map_exn f (x # xs) = and_then (f x) (\<lambda>y. and_then (map_exn f xs) (\<lambda>ys. Inr (y # ys)))"

text \<open>The callback of \<open>prevRows.map\<close> (line 118): the cells of one table row.\<close>

definition prev_tr :: "js \<Rightarrow> exn + piece list list" where
  "prev_tr r =
     and_then (get_field r ''group'') (\<lambda>g.
     and_then (get_field r ''prev'') (\<lambda>p.
     and_then (toFixed p 3) (\<lambda>pf.
     Inr [[StringOf g], [pf]])))"

text \<open>The callback of \<open>orRows.map\<close> (lines 141 to 146).\<close>

definition or_tr :: "js \<Rightarrow> exn + piece list list" where
  "or_tr r =
     and_then (get_field r ''term'') (\<lambda>t.
     and_then (get_field r ''OR'') (\<lambda>x.
     and_then (toFixed x 2) (\<lambda>xf.
     and_then (get_field r ''OR_low'') (\<lambda>lo.
     and_then (toFixed lo 2) (\<lambda>lof.
     and_then (get_field r ''OR_high'') (\<lambda>hi.
     and_then (toFixed hi 2) (\<lambda>hif.
     and_then (get_field r ''P>|z|'') (\<lambda>p.
     and_then (toExponential p 2) (\<lambda>pf.
     Inr [[Child t], [xf], [lof, EnDash, hif], [pf]])))))))))"

text \<open>
  \<open>{prevRows && (... prevRows.map(...) ...)}\<close> and the same for \<open>orRows\<close>: calling
  \<open>map\<close> on a truthy value that is not an array throws a TypeError.
\<close>

definition render_table :: "(js \<Rightarrow> exn + piece list list) \<Rightarrow> js \<Rightarrow> exn + rendered" where
  "render_table tr v =
     (if \<not> truthy v then Inr (Skipped v)
      else case v of
             JArr rows \<Rightarrow> and_then (map_exn tr rows) (\<lambda>trs. Inr (Table trs))
           | _ \<Rightarrow> Inl TypeError)"

definition render_prevRows :: "app_state \<Rightarrow> exn + rendered" where
  "render_prevRows s = render_table prev_tr (prevRows s)"

definition render_orRows :: "app_state \<Rightarrow> exn + rendered" where
  "render_orRows s = render_table or_tr (orRows s)"

text \<open>\<open>fd.has(k)\<close> and \<open>fd.getAll(k)\<close>, to speak about the entries of a form.\<close>

definition fd_has :: "FormData \<Rightarrow> string \<Rightarrow> bool" where
  "fd_has fd k = (k \<in> set (map fst fd))"

definition fd_getAll :: "FormData \<Rightarrow> string \<Rightarrow> form_value list" where
  "fd_getAll fd k = map snd (filter (\<lambda>kv. fst kv = k) fd)"

text \<open>The field names of an object, in order; a value that is not an object has no fields to name.\<close>

fun field_names :: "js \<Rightarrow> string list option" where
  "field_names (JObj fs) = Some (map fst fs)"
| "field_names v = None"

text \<open>
  The form every handler builds: the file first, then those of its text parameters that
  are not the empty string, in the order of the \<open>append\<close> calls.
\<close>

definition form_of :: "File \<Rightarrow> (string \<times> string) list \<Rightarrow> FormData" where
  "form_of f kvs = (''file'', FFile f) # map (\<lambda>kv. (fst kv, FText (snd kv))) (filter (\<lambda>kv. snd kv \<noteq> []) kvs)"

section \<open>The analytic core behind the endpoints\<close>

text \<open>
  The backend (the FastAPI application behind \<open>/recode\<close>, \<open>/prevalence\<close>,
  \<open>/plot/prevalence\<close> and \<open>/logit\<close>) is present in the repository's sources only through
  its README. Its recoder, aggregator and estimator are therefore modelled from the
  specification, sections 3, 4.1, 4.2 and 4.3; every definition of this section says so
  and names what it stands in for.
\<close>

subsection \<open>Datasets\<close>

text \<open>
  Modelled from the spec: the value of a column in a row (section 3; the backend's table
  type is missing): a categorical code, a number, or missing.
\<close>

datatype cell = Missing | Number real | Category string

text \<open>
  Modelled from the spec: a respondent row (section 3; the backend's table type is
  missing), a mapping from column names to values.
\<close>

type_synonym row = "string \<Rightarrow> cell option"

text \<open>
  Modelled from the spec: the Dataset (section 3; the backend's table type is missing),
  an ordered sequence of rows.
\<close>

type_synonym dataset = "row list"

text \<open>
  Modelled from the spec: reading a column of a row (the backend's column access is
  missing); a column the row does not have reads as missing.
\<close>

definition get_cell :: "row \<Rightarrow> string \<Rightarrow> cell" where
  "get_cell r c = (case r c of None \<Rightarrow> Missing | Some v \<Rightarrow> v)"

text \<open>
  Modelled from the spec: the weight of a row (section 3; the backend's weight handling
  is missing). Absent or non-numeric values fall back to the uniform weight 1.
\<close>

definition weight_of :: "string \<Rightarrow> row \<Rightarrow> real" where
  "weight_of wcol r = (case get_cell r wcol of Number w \<Rightarrow> w | _ \<Rightarrow> 1)"

text \<open>
  Modelled from the spec: the binary outcome of a row (sections 3 and 4.2; the backend's
  outcome column handling is missing): a number, or missing.
\<close>

definition outcome_of :: "string \<Rightarrow> row \<Rightarrow> real option" where
  "outcome_of ocol r = (case get_cell r ocol of Number y \<Rightarrow> Some y | _ \<Rightarrow> None)"

subsection \<open>Recoder\<close>

text \<open>
  Modelled from the spec: a rule of the recode mapping (section 3; the backend's recode
  tables are missing). A rule has a source column, a derived column and the mapping from
  source value to derived value. The table of rules itself is a parameter of the recoder.
\<close>

record rule =
  source :: string
  derived :: string
  mapping :: "cell \<Rightarrow> cell"

text \<open>
  Modelled from the spec: a code-to-category mapping (section 3; the backend's code
  tables are missing). A code that is not in the table becomes the table's sentinel.
\<close>

definition code_table :: "(cell \<times> cell) list \<Rightarrow> cell \<Rightarrow> cell \<Rightarrow> cell" where
  "code_table tbl sentinel c = (case map_of tbl c of Some v \<Rightarrow> v | None \<Rightarrow> sentinel)"

text \<open>
  Modelled from the spec: a fixed-bin categorical field (section 4.1; the backend's bin
  edges are missing). Each bin is closed on the left and open on the right; a missing or
  non-numeric value, or a number in no bin, goes to the unknown bin.
\<close>

fun bin_of :: "(real \<times> real \<times> string) list \<Rightarrow> string \<Rightarrow> cell \<Rightarrow> cell" where
  "bin_of [] unknown c = Category unknown"
| "bin_of ((lo, hi, label) # bins) unknown (Number x) =
     (if lo \<le> x \<and> x < hi then Category label else bin_of bins unknown (Number x))"
| "bin_of bins unknown c = Category unknown"

text \<open>
  Modelled from the spec: one rule applied to one row (section 4.1; the backend's recode
  function is missing). It adds or overwrites the derived column and leaves every other
  column as it is.
\<close>

definition apply_rule :: "row \<Rightarrow> rule \<Rightarrow> row" where
  "apply_rule r ru = r(derived ru \<mapsto> mapping ru (get_cell r (source ru)))"

text \<open>
  Modelled from the spec: the Recoder on one row (section 4.1; the backend's recode
  function is missing): the rules of the table, applied in order.
\<close>

definition recode_row :: "rule list \<Rightarrow> row \<Rightarrow> row" where
  "recode_row rules r = foldl apply_rule r rules"

text \<open>
  Modelled from the spec: the Recoder (section 4.1; the backend's recode function is
  missing). It produces a new dataset, row by row.
\<close>

definition recode :: "rule list \<Rightarrow> dataset \<Rightarrow> dataset" where
  "recode rules ds = map (recode_row rules) ds"

text \<open>
  Modelled from the spec: "the same source columns intact" (section 8; a condition on the
  backend's missing recode tables). No rule writes a column that it, or a rule before it,
  reads. A later rule may read what an earlier rule derived, as the binned measure is
  derived from the continuous one.
\<close>

fun sources_intact :: "rule list \<Rightarrow> bool" where
  "sources_intact [] = True"
| "sources_intact (ru # rules) =
     (list_all (\<lambda>q. derived q \<noteq> source ru) (ru # rules) \<and> sources_intact rules)"

subsection \<open>Weighted Aggregator\<close>

text \<open>
  Modelled from the spec: the group of a row (section 4.2; the backend's grouping is
  missing). Ungrouped, every row is in the one synthetic group labelled overall; grouped,
  a row whose grouping value is missing is in no group.
\<close>

definition group_of :: "string option \<Rightarrow> row \<Rightarrow> cell option" where
  "group_of byc r =
     (case byc of
        None \<Rightarrow> Some (Category ''overall'')
      | Some g \<Rightarrow> (case get_cell r g of Missing \<Rightarrow> None | v \<Rightarrow> Some v))"

text \<open>
  Modelled from the spec: one step of the aggregation (section 4.2; the backend's
  prevalence function is missing). The running numerator \<open>\<Sum> weight \<sqdot> outcome\<close> and
  denominator \<open>\<Sum> weight\<close> of group \<open>g\<close> grow by \<open>a\<close> and \<open>b\<close>; a group seen for the first
  time goes to the end, which keeps the groups in first-seen order.
\<close>

fun add_to_group :: "cell \<Rightarrow> real \<Rightarrow> real \<Rightarrow> (cell \<times> real \<times> real) list \<Rightarrow> (cell \<times> real \<times> real) list" where
  "add_to_group g a b [] = [(g, a, b)]"
| "add_to_group g a b ((h, n, d) # acc) =
     (if h = g then (h, n + a, d + b) # acc else (h, n, d) # add_to_group g a b acc)"

text \<open>
  Modelled from the spec: what one row adds (section 4.2; the backend's prevalence
  function is missing). A row in no group adds nothing; a row with a missing outcome
  shows its group but adds to neither sum; any other row adds its weight times its
  outcome to the numerator and its weight to the denominator.
\<close>

definition tally_row :: "string \<Rightarrow> string option \<Rightarrow> string \<Rightarrow> (cell \<times> real \<times> real) list \<Rightarrow> row \<Rightarrow> (cell \<times> real \<times> real) list" where
  "tally_row ocol byc wcol acc r =
     (case group_of byc r of
        None \<Rightarrow> acc
      | Some g \<Rightarrow>
          (case outcome_of ocol r of
             None \<Rightarrow> add_to_group g 0 0 acc
           | Some y \<Rightarrow> add_to_group g (weight_of wcol r * y) (weight_of wcol r) acc))"

text \<open>
  Modelled from the spec: the aggregation as one pass over the rows (section 4.2; the
  backend's prevalence function is missing).
\<close>

definition tally :: "string \<Rightarrow> string option \<Rightarrow> string \<Rightarrow> dataset \<Rightarrow> (cell \<times> real \<times> real) list" where
  "tally ocol byc wcol ds = foldl (tally_row ocol byc wcol) [] ds"

text \<open>
  Modelled from the spec: the failure of the aggregation (section 3; the backend's error
  type is missing): the sum of the weights is not positive.
\<close>

datatype agg_error = ZeroTotalWeight

text \<open>
  Modelled from the spec: the Weighted Aggregator (sections 3 and 4.2; the backend's
  prevalence function is missing). Aggregation fails unless the sum of the weights is
  positive; a group with a zero weighted denominator is omitted; every other group gets
  its numerator over its denominator.
\<close>

definition prevalence :: "dataset \<Rightarrow> string \<Rightarrow> string option \<Rightarrow> string \<Rightarrow> agg_error + (cell \<times> real) list" where
  "prevalence ds ocol byc wcol =
     (if sum_list (map (weight_of wcol) ds) \<le> 0 then Inl ZeroTotalWeight
      else Inr (map (\<lambda>(g, n, d). (g, n / d))
                 (filter (\<lambda>(g, n, d). d \<noteq> 0) (tally ocol byc wcol ds))))"

text \<open>
  Modelled from the spec: the rows the formula of section 4.2 sums over for group \<open>g\<close>
  (the backend's prevalence function is missing): those whose outcome is not missing and
  whose group is \<open>g\<close>.
\<close>

definition counted :: "string \<Rightarrow> string option \<Rightarrow> cell \<Rightarrow> dataset \<Rightarrow> dataset" where
  "counted ocol byc g ds = filter (\<lambda>r. outcome_of ocol r \<noteq> None \<and> group_of byc r = Some g) ds"

text \<open>
  Modelled from the spec: the \<open>outcome_i\<close> of the formula (section 4.2; the backend's
  prevalence function is missing), read on a row that is counted.
\<close>

definition outcome_value :: "string \<Rightarrow> row \<Rightarrow> real" where
  "outcome_value ocol r = (case outcome_of ocol r of Some y \<Rightarrow> y | None \<Rightarrow> 0)"

text \<open>
  Modelled from the spec: \<open>\<Sum> weight_i \<sqdot> outcome_i\<close> (section 4.2; the backend's prevalence
  function is missing).
\<close>

definition weighted_sum :: "string \<Rightarrow> string \<Rightarrow> dataset \<Rightarrow> real" where
  "weighted_sum ocol wcol rs = sum_list (map (\<lambda>r. weight_of wcol r * outcome_value ocol r) rs)"

text \<open>
  Modelled from the spec: \<open>\<Sum> weight_i\<close> (section 4.2; the backend's prevalence function is
  missing).
\<close>

definition weight_sum :: "string \<Rightarrow> dataset \<Rightarrow> real" where
  "weight_sum wcol rs = sum_list (map (weight_of wcol) rs)"

text \<open>
  Modelled from the spec: the formula \<open>prev(g) = \<Sum> weight_i \<sqdot> outcome_i / \<Sum> weight_i\<close> in
  the spec's own words (section 4.2; the backend's prevalence function is missing), to
  compare the pass with.
\<close>

definition prev_formula :: "dataset \<Rightarrow> string \<Rightarrow> string option \<Rightarrow> string \<Rightarrow> cell \<Rightarrow> real" where
  "prev_formula ds ocol byc wcol g =
     weighted_sum ocol wcol (counted ocol byc g ds) / weight_sum wcol (counted ocol byc g ds)"

text \<open>
  Modelled from the spec: first-seen order (sections 4.2 and 4.3; the backend's ordering
  of groups and levels is missing): each value once, at the place of its first occurrence.
\<close>

definition first_seen :: "'a list \<Rightarrow> 'a list" where
  "first_seen xs = rev (remdups (rev xs))"

text \<open>
  Modelled from the spec: the observed group levels of a dataset, in first-seen order
  (section 4.2; the backend's grouping is missing).
\<close>

definition observed_groups :: "string option \<Rightarrow> dataset \<Rightarrow> cell list" where
  "observed_groups byc ds = first_seen (List.map_filter (group_of byc) ds)"

subsection \<open>Weighted Regression Estimator\<close>

text \<open>
  Modelled from the spec: a covariate term specifier (section 4.3; the backend's parsing
  of the covariate list is missing): a raw numeric column or a categorical column.
\<close>

datatype covariate = NumericCol string | CategoricalCol string

text \<open>
  Modelled from the spec: a model term (section 4.3; the backend's design-matrix code is
  missing): the intercept, the slope of a numeric column, or the indicator of one level of
  a categorical column.
\<close>

datatype model_term = Intercept | Slope string | Indicator string cell

text \<open>
  Modelled from the spec: the column a covariate reads (section 4.3; the backend's
  design-matrix code is missing).
\<close>

fun column_of :: "covariate \<Rightarrow> string" where
  "column_of (NumericCol c) = c"
| "column_of (CategoricalCol c) = c"

text \<open>
  Modelled from the spec: complete-case analysis (section 4.3; the backend's row
  filtering is missing). A row is kept when its outcome and its value on every included
  covariate are present.
\<close>

definition complete_case :: "string \<Rightarrow> covariate list \<Rightarrow> row \<Rightarrow> bool" where
  "complete_case ocol covs r =
     (outcome_of ocol r \<noteq> None \<and> list_all (\<lambda>c. get_cell r (column_of c) \<noteq> Missing) covs)"

text \<open>
  Modelled from the spec: the levels of a categorical column in first-seen order (section
  4.3 and the design note on the reference level; the backend's design-matrix code is
  missing). Missing is not a level. The levels are those of the dataset as given, so that
  a level can be empty once the incomplete rows are removed, as section 4.3 foresees.
\<close>

definition levels :: "string \<Rightarrow> dataset \<Rightarrow> cell list" where
  "levels c rows = first_seen (filter (\<lambda>v. v \<noteq> Missing) (map (\<lambda>r. get_cell r c) rows))"

text \<open>
  Modelled from the spec: the terms of one covariate (section 4.3; the backend's
  design-matrix code is missing). A numeric column gives one term; a categorical column
  gives one indicator per level other than the reference, the first level encountered.
\<close>

fun expand :: "dataset \<Rightarrow> covariate \<Rightarrow> model_term list" where
  "expand rows (NumericCol c) = [Slope c]"
| "expand rows (CategoricalCol c) = map (Indicator c) (tl (levels c rows))"

text \<open>
  Modelled from the spec: the model terms (section 4.3; the backend's design-matrix code
  is missing): the intercept, then the terms of the covariates in the order given.
\<close>

definition model_terms :: "dataset \<Rightarrow> covariate list \<Rightarrow> model_term list" where
  "model_terms rows covs = Intercept # concat (map (expand rows) covs)"

text \<open>
  Modelled from the spec: the failure conditions of the fit (section 4.3; the backend's
  error type is missing).
\<close>

datatype est_failure = PerfectSeparation | RankDeficient | NonConvergence

text \<open>
  Modelled from the spec: the maximum-likelihood fit (section 4.3; the backend's
  regression function is missing), taken as a parameter. From the complete-case rows, the
  model terms, the outcome column and the weight column it gives either a structured
  estimation failure or, for each term, the coefficient and its standard error.
\<close>

type_synonym estimator =
  "dataset \<Rightarrow> model_term list \<Rightarrow> string \<Rightarrow> string \<Rightarrow> est_failure + (model_term \<Rightarrow> real \<times> real)"

text \<open>
  Modelled from the spec: the result row of one term (sections 3 and 4.3; the backend's
  regression function is missing): the odds ratio \<open>exp \<beta>\<close>, the bounds
  \<open>exp (\<beta> \<plusminus> 1.96 \<sqdot> SE)\<close> and the two-sided p-value \<open>2 \<sqdot> \<Phi> (- \<bar>\<beta> / SE\<bar>)\<close>. The standard
  normal distribution function \<open>Phi\<close> and the naming of terms are parameters. The row
  carries the fields of the client's \<open>ORRow\<close>: the spec's odds_ratio, ci_low, ci_high and
  p_value are \<open>OR\<close>, \<open>OR_low\<close>, \<open>OR_high\<close> and \<open>P_z\<close>.
\<close>

definition result_row :: "(model_term \<Rightarrow> string) \<Rightarrow> (real \<Rightarrow> real) \<Rightarrow> model_term \<Rightarrow> real \<times> real \<Rightarrow> ORRow" where
  "result_row name Phi t bs =
     \<lparr> term' = name t,
       OR = exp (fst bs),
       OR_low = exp (fst bs - 1.96 * snd bs),
       OR_high = exp (fst bs + 1.96 * snd bs),
       P_z = 2 * Phi (- \<bar>fst bs / snd bs\<bar>) \<rparr>"

text \<open>
  Modelled from the spec: the Weighted Regression Estimator (section 4.3; the backend's
  regression function is missing). The model terms are those of the dataset; the fit
  runs on the complete cases; a failure of the fit is the result; otherwise every model
  term gets its row, in the order of the terms.
\<close>

definition regression ::
  "estimator \<Rightarrow> (model_term \<Rightarrow> string) \<Rightarrow> (real \<Rightarrow> real) \<Rightarrow>
   dataset \<Rightarrow> covariate list \<Rightarrow> string \<Rightarrow> string \<Rightarrow> est_failure + ORRow list" where
  "regression mle name Phi ds covs ocol wcol =
     (let cc = filter (complete_case ocol covs) ds;
          ts = model_terms ds covs
      in case mle cc ts ocol wcol of
           Inl failure \<Rightarrow> Inl failure
         | Inr est \<Rightarrow> Inr (map (\<lambda>t. result_row name Phi t (est t)) ts))"

text \<open>
  Modelled from the spec: a prevalence row as the client's \<open>PrevRow\<close> (section 6; the
  backend's serialisation is missing); the text of a group label is a parameter.
\<close>

definition to_PrevRow :: "(cell \<Rightarrow> string) \<Rightarrow> cell \<times> real \<Rightarrow> PrevRow" where
  "to_PrevRow label gp = \<lparr> group = label (fst gp), prev = snd gp \<rparr>"


section \<open>Example data\<close>

text \<open>The four rows of the spec's end-to-end scenario: outcomes 1, 0, 1, 0 and weights 2, 1, 1, 2.\<close>

definition four_rows :: dataset where
  "four_rows =
     [ [''t2d_binary'' \<mapsto> Number 1, ''_LLCPWT'' \<mapsto> Number 2],
       [''t2d_binary'' \<mapsto> Number 0, ''_LLCPWT'' \<mapsto> Number 1],
       [''t2d_binary'' \<mapsto> Number 1, ''_LLCPWT'' \<mapsto> Number 1],
       [''t2d_binary'' \<mapsto> Number 0, ''_LLCPWT'' \<mapsto> Number 2] ]"

text \<open>A chosen file, with a grouping column and a covariate list typed in.\<close>

definition example_file :: File where
  "example_file = File ''brfss.csv'' [98, 114, 102]"

definition example_state :: app_state where
  "example_state = initial_state\<lparr> file' := Some example_file, by' := ''sex'', covars := ''C(sex)'' \<rparr>"

text \<open>No file, while the busy flag is up.\<close>

definition busy_no_file :: app_state where
  "busy_no_file = initial_state\<lparr> busy := True \<rparr>"

text \<open>A regression table is on display from an earlier run.\<close>

definition example_ORRow :: ORRow where
  "example_ORRow = \<lparr> term' = ''Intercept'', OR = 1 / 4, OR_low = 1 / 8, OR_high = 1 / 2, P_z = 1 / 100 \<rparr>"

definition showing_table :: app_state where
  "showing_table = example_state\<lparr> orRows := JArr [js_of_ORRow example_ORRow] \<rparr>"

text \<open>
  A server that answers every endpoint: two prevalence rows, a plot image, a regression
  table of one row, a recoded preview of one row.
\<close>

definition example_PrevRows :: "PrevRow list" where
  "example_PrevRows = [\<lparr> group = ''Male'', prev = 1 / 4 \<rparr>, \<lparr> group = ''Female'', prev = 1 / 8 \<rparr>]"

definition example_server :: "request \<Rightarrow> exn + response" where
  "example_server req =
     (if url req = ''http://localhost:8000/prevalence''
      then Inr \<lparr> json = Inr (JArr (map js_of_PrevRow example_PrevRows)), blob = Inl TypeError \<rparr>
      else if url req = ''http://localhost:8000/plot/prevalence''
      then Inr \<lparr> json = Inl SyntaxError, blob = Inr (Blob [137, 80, 78, 71]) \<rparr>
      else if url req = ''http://localhost:8000/logit''
      then Inr \<lparr> json = Inr (JObj [(''table'', JArr [js_of_ORRow example_ORRow])]), blob = Inl TypeError \<rparr>
      else if url req = ''http://localhost:8000/recode''
      then Inr \<lparr> json = Inr (JArr [JObj [(''t2d_binary'', JNum 1)]]), blob = Inl TypeError \<rparr>
      else Inl TypeError)"

definition example_env :: env where
  "example_env = \<lparr> VITE_API_BASE = None, fetch = example_server, createObjectURL = (\<lambda>b. ''blob:plot'') \<rparr>"

text \<open>The same server with the plot endpoint unreachable.\<close>

definition plot_down_env :: env where
  "plot_down_env =
     \<lparr> VITE_API_BASE = None,
       fetch = (\<lambda>req. if url req = ''http://localhost:8000/plot/prevalence'' then Inl TypeError
                      else example_server req),
       createObjectURL = (\<lambda>b. ''blob:plot'') \<rparr>"

text \<open>A server whose regression endpoint answers with an error object, and one that answers \<open>null\<close>.\<close>

definition error_body_env :: env where
  "error_body_env =
     \<lparr> VITE_API_BASE = None,
       fetch = (\<lambda>req. Inr \<lparr> json = Inr (JObj [(''detail'', JStr ''bad covariate'')]), blob = Inl TypeError \<rparr>),
       createObjectURL = (\<lambda>b. ''blob:plot'') \<rparr>"

definition null_body_env :: env where
  "null_body_env =
     \<lparr> VITE_API_BASE = None,
       fetch = (\<lambda>req. Inr \<lparr> json = Inr JNull, blob = Inl TypeError \<rparr>),
       createObjectURL = (\<lambda>b. ''blob:plot'') \<rparr>"

text \<open>
  A small table of rules of the three kinds the spec names (a code table, a continuous
  measure, its bins), and a raw row for it. The column names and codes are for
  illustration, they are not the backend's own.
\<close>

definition example_rules :: "rule list" where
  "example_rules =
     [ \<lparr> source = ''SEXVAR'', derived = ''sex'',
         mapping = code_table [(Number 1, Category ''Male''), (Number 2, Category ''Female'')] (Category ''Missing'') \<rparr>,
       \<lparr> source = ''_BMI5'', derived = ''BMI'',
         mapping = (\<lambda>c. case c of Number x \<Rightarrow> Number (x / 100) | _ \<Rightarrow> Missing) \<rparr>,
       \<lparr> source = ''BMI'', derived = ''BMI_cat'',
         mapping = bin_of [(0, 25, ''Under 25''), (25, 30, ''25 to 30''), (30, 100, ''30 and over'')] ''Unknown'' \<rparr> ]"

definition example_row :: row where
  "example_row = [''SEXVAR'' \<mapsto> Number 2, ''_BMI5'' \<mapsto> Number 2500, ''_LLCPWT'' \<mapsto> Number 3]"

text \<open>
  A dataset with a categorical covariate of three levels, a stand-in for the fit (every
  coefficient 0 with standard error 1), for \<open>\<Phi>\<close> and for the naming of terms.
\<close>

definition example_cohort :: dataset where
  "example_cohort =
     [ [''t2d_binary'' \<mapsto> Number 1, ''age_group'' \<mapsto> Category ''65+''],
       [''t2d_binary'' \<mapsto> Number 0, ''age_group'' \<mapsto> Category ''18-44''],
       [''age_group'' \<mapsto> Category ''45-64''],
       [''t2d_binary'' \<mapsto> Number 0, ''age_group'' \<mapsto> Category ''65+''],
       [''t2d_binary'' \<mapsto> Number 1, ''age_group'' \<mapsto> Category ''45-64''] ]"

definition flat_fit :: estimator where
  "flat_fit rows ts ocol wcol = Inr (\<lambda>t. (0, 1))"

definition half :: "real \<Rightarrow> real" where
  "half x = 1 / 2"

fun example_name :: "model_term \<Rightarrow> string" where
  "example_name Intercept = ''Intercept''"
| "example_name (Slope c) = c"
| "example_name (Indicator c (Category l)) = c @ ''='' @ l"
| "example_name (Indicator c v) = c"

fun example_label :: "cell \<Rightarrow> string" where
  "example_label (Category l) = l"
| "example_label v = ''?''"

text \<open>A dataset grouped by sex, one row of which has no outcome and one no group.\<close>

definition example_survey :: dataset where
  "example_survey =
     [ [''t2d_binary'' \<mapsto> Number 1, ''sex'' \<mapsto> Category ''Male'', ''_LLCPWT'' \<mapsto> Number 1],
       [''t2d_binary'' \<mapsto> Number 0, ''sex'' \<mapsto> Category ''Female'', ''_LLCPWT'' \<mapsto> Number 7],
       [''t2d_binary'' \<mapsto> Number 0, ''sex'' \<mapsto> Category ''Male'', ''_LLCPWT'' \<mapsto> Number 3],
       [''sex'' \<mapsto> Category ''Male'', ''_LLCPWT'' \<mapsto> Number 5],
       [''t2d_binary'' \<mapsto> Number 1, ''_LLCPWT'' \<mapsto> Number 2],
       [''t2d_binary'' \<mapsto> Number 1, ''sex'' \<mapsto> Category ''Female'', ''_LLCPWT'' \<mapsto> Number 1] ]"

text \<open>The regression table of that fit, and a server that answers with it.\<close>

definition example_table :: "ORRow list" where
  "example_table =
     map (\<lambda>t. result_row example_name half t (0, 1))
       [Intercept, Indicator ''age_group'' (Category ''18-44''), Indicator ''age_group'' (Category ''45-64'')]"

definition table_env :: env where
  "table_env =
     \<lparr> VITE_API_BASE = Some ''https://api.example.org'',
       fetch = (\<lambda>req. Inr \<lparr> json = Inr (JObj [(''table'', JArr (map js_of_ORRow example_table))]),
                            blob = Inl TypeError \<rparr>),
       createObjectURL = (\<lambda>b. ''blob:plot'') \<rparr>"

section \<open>The aggregation pass against the spec's formula\<close>

lemma map_fst_add_to_group:
  "map fst (add_to_group g a b acc) = (if g \<in> set (map fst acc) then map fst acc else map fst acc @ [g])"
  by (induction acc) (force+)

lemma map_of_add_to_group:
  "map_of (add_to_group g a b acc) =
     (map_of acc)(g \<mapsto> (case map_of acc g of None \<Rightarrow> (a, b) | Some (n, d) \<Rightarrow> (n + a, d + b)))"
  by (induction acc) (auto simp: fun_eq_iff)

lemma tally_snoc:
  "tally ocol byc wcol (ds @ [r]) = tally_row ocol byc wcol (tally ocol byc wcol ds) r"
  by (simp add: tally_def)

lemma first_seen_snoc:
  "first_seen (xs @ [x]) = (if x \<in> set xs then first_seen xs else first_seen xs @ [x])"
  by (simp add: first_seen_def)

lemma map_fst_tally:
  "map fst (tally ocol byc wcol ds) = observed_groups byc ds"
proof (induction ds rule: rev_induct)
  case Nil
  show ?case by (simp add: tally_def observed_groups_def first_seen_def List.map_filter_def)
next
  case (snoc r ds)
  have set_eq: "set (observed_groups byc ds) = set (List.map_filter (group_of byc) ds)"
    by (simp add: observed_groups_def first_seen_def)
  show ?case
  proof (cases "group_of byc r")
    case None
    then show ?thesis using snoc
      by (simp add: tally_snoc tally_row_def observed_groups_def List.map_filter_def)
  next
    case (Some g)
    then show ?thesis using snoc set_eq
      by (cases "outcome_of ocol r")
         (simp_all add: tally_snoc tally_row_def map_fst_add_to_group observed_groups_def
            List.map_filter_def first_seen_snoc)
  qed
qed

lemma in_observed_groups:
  "g \<in> set (observed_groups byc ds) \<longleftrightarrow> (\<exists>r\<in>set ds. group_of byc r = Some g)"
  by (force simp: observed_groups_def first_seen_def List.map_filter_def)

lemma counted_unobserved:
  "g \<notin> set (observed_groups byc ds) \<Longrightarrow> counted ocol byc g ds = []"
  by (auto simp: in_observed_groups counted_def filter_empty_conv)

lemma counted_snoc:
  "counted ocol byc g (ds @ [r]) =
     counted ocol byc g ds @ (if outcome_of ocol r \<noteq> None \<and> group_of byc r = Some g then [r] else [])"
  by (simp add: counted_def)

lemma map_of_tally:
  "map_of (tally ocol byc wcol ds) g =
     (if g \<in> set (observed_groups byc ds)
      then Some (weighted_sum ocol wcol (counted ocol byc g ds), weight_sum wcol (counted ocol byc g ds))
      else None)"
proof (induction ds arbitrary: g rule: rev_induct)
  case Nil
  show ?case by (simp add: tally_def in_observed_groups)
next
  case (snoc r ds)
  show ?case
  proof (cases "group_of byc r")
    case None
    then show ?thesis using snoc
      by (simp add: tally_snoc tally_row_def in_observed_groups counted_snoc)
  next
    case (Some h)
    have obs: "g \<in> set (observed_groups byc (ds @ [r])) \<longleftrightarrow> g = h \<or> g \<in> set (observed_groups byc ds)"
      using Some by (auto simp: in_observed_groups)
    show ?thesis
    proof (cases "outcome_of ocol r")
      case None
      then show ?thesis using snoc [of g] snoc [of h] Some obs
        by (cases "h \<in> set (observed_groups byc ds)")
           (auto simp add: tally_snoc tally_row_def counted_snoc map_of_add_to_group
              counted_unobserved weighted_sum_def weight_sum_def)
    next
      case (Some y)
      then show ?thesis using snoc [of g] snoc [of h] \<open>group_of byc r = Some h\<close> obs
        by (cases "h \<in> set (observed_groups byc ds)")
           (auto simp add: tally_snoc tally_row_def counted_snoc map_of_add_to_group
              counted_unobserved weighted_sum_def weight_sum_def outcome_value_def)
    qed
  qed
qed


lemma distinct_first_seen: "distinct (first_seen xs)"
  by (simp add: first_seen_def)

lemma distinct_observed_groups: "distinct (observed_groups byc ds)"
  by (simp add: observed_groups_def distinct_first_seen)

lemma alist_by_keys:
  "distinct (map fst xs) \<Longrightarrow> xs = map (\<lambda>k. (k, the (map_of xs k))) (map fst xs)"
proof (induction xs)
  case Nil
  show ?case by simp
next
  case (Cons x xs)
  have "map (\<lambda>k. (k, the (map_of (x # xs) k))) (map fst xs)
          = map (\<lambda>k. (k, the (map_of xs k))) (map fst xs)"
  proof (rule map_cong [OF refl])
    fix k
    assume "k \<in> set (map fst xs)"
    with Cons.prems have "k \<noteq> fst x" by force
    then show "(k, the (map_of (x # xs) k)) = (k, the (map_of xs k))"
      by (cases x) simp
  qed
  with Cons show ?case by (cases x) simp
qed

lemma tally_eq:
  "tally ocol byc wcol ds =
     map (\<lambda>g. (g, weighted_sum ocol wcol (counted ocol byc g ds), weight_sum wcol (counted ocol byc g ds)))
       (observed_groups byc ds)"
proof -
  let ?T = "tally ocol byc wcol ds"
  have d: "distinct (map fst ?T)"
    by (simp add: map_fst_tally distinct_observed_groups)
  have "?T = map (\<lambda>k. (k, the (map_of ?T k))) (map fst ?T)"
    using alist_by_keys [OF d] .
  also have "\<dots> = map (\<lambda>k. (k, the (map_of ?T k))) (observed_groups byc ds)"
    by (simp only: map_fst_tally)
  also have "\<dots> = map (\<lambda>g. (g, weighted_sum ocol wcol (counted ocol byc g ds), weight_sum wcol (counted ocol byc g ds)))
       (observed_groups byc ds)"
    by (rule map_cong) (simp_all add: map_of_tally)
  finally show ?thesis .
qed

lemma prevalence_rows:
  assumes "prevalence ds ocol byc wcol = Inr rows"
  shows "rows = map (\<lambda>g. (g, prev_formula ds ocol byc wcol g))
                  (filter (\<lambda>g. weight_sum wcol (counted ocol byc g ds) \<noteq> 0) (observed_groups byc ds))"
  using assms
  by (simp add: prevalence_def tally_eq filter_map o_def prev_formula_def split: if_splits)

lemma four_rows_prevalence:
  "prevalence four_rows ''t2d_binary'' None ''_LLCPWT'' = Inr [(Category ''overall'', 1 / 2)]"
  by (simp add: prevalence_def four_rows_def tally_def tally_row_def group_of_def outcome_of_def
        weight_of_def get_cell_def)

text \<open>
  C1. Whatever the dataset, every prevalence row \<open>(g, p)\<close> has
  \<open>p = \<Sum> weight \<sqdot> outcome / \<Sum> weight\<close>, both sums over the rows whose outcome is not
  missing and whose group is \<open>g\<close> (ungrouped, every row is in the one group), and that
  denominator is not zero. For the four rows with outcomes 1, 0, 1, 0 and weights
  2, 1, 1, 2, ungrouped, the result is the single row with prevalence 3/6 = 1/2.
\<close>

theorem weighted_prevalence_formula:
  "(\<forall>rows g p. prevalence ds ocol byc wcol = Inr rows \<longrightarrow> (g, p) \<in> set rows \<longrightarrow>
      (\<Sum>r\<leftarrow>counted ocol byc g ds. weight_of wcol r) \<noteq> 0 \<and>
      p = (\<Sum>r\<leftarrow>counted ocol byc g ds. weight_of wcol r * outcome_value ocol r)
          / (\<Sum>r\<leftarrow>counted ocol byc g ds. weight_of wcol r))
   \<and> prevalence four_rows ''t2d_binary'' None ''_LLCPWT'' = Inr [(Category ''overall'', 1 / 2)]"
proof (intro conjI allI impI)
  fix rows g p
  assume a: "prevalence ds ocol byc wcol = Inr rows" and b: "(g, p) \<in> set rows"
  from b show "(\<Sum>r\<leftarrow>counted ocol byc g ds. weight_of wcol r) \<noteq> 0"
    unfolding prevalence_rows [OF a] by (auto simp: weight_sum_def)
  from b show "p = (\<Sum>r\<leftarrow>counted ocol byc g ds. weight_of wcol r * outcome_value ocol r)
          / (\<Sum>r\<leftarrow>counted ocol byc g ds. weight_of wcol r)"
    unfolding prevalence_rows [OF a] by (auto simp: prev_formula_def weight_sum_def weighted_sum_def)
next
  show "prevalence four_rows ''t2d_binary'' None ''_LLCPWT'' = Inr [(Category ''overall'', 1 / 2)]"
    by (rule four_rows_prevalence)
qed

theorem weighted_prevalence_formula_witness:
  "prevalence four_rows ''t2d_binary'' None ''_LLCPWT'' = Inr [(Category ''overall'', 1 / 2)]
   \<and> (Category ''overall'', 1 / 2) \<in> set [(Category ''overall'', 1 / (2::real))]
   \<and> (\<Sum>r\<leftarrow>counted ''t2d_binary'' None (Category ''overall'') four_rows. weight_of ''_LLCPWT'' r) \<noteq> 0
   \<and> (1 / 2 :: real) = (\<Sum>r\<leftarrow>counted ''t2d_binary'' None (Category ''overall'') four_rows.
                            weight_of ''_LLCPWT'' r * outcome_value ''t2d_binary'' r)
          / (\<Sum>r\<leftarrow>counted ''t2d_binary'' None (Category ''overall'') four_rows. weight_of ''_LLCPWT'' r)"
proof -
  note t = weighted_prevalence_formula [of four_rows "''t2d_binary''" None "''_LLCPWT''"]
  have m: "(Category ''overall'', 1 / 2) \<in> set [(Category ''overall'', 1 / (2::real))]"
    by simp
  from t m show ?thesis by blast
qed

section \<open>Properties of the client\<close>

lemma form_of_two:
  "fd_append_if (fd_append_if (fd_append [] ''file'' (FFile f)) k v) k2 w = form_of f [(k, v), (k2, w)]"
  by (simp add: fd_append_if_def fd_append_def form_of_def)

lemma form_of_one:
  "fd_append_if (fd_append [] ''file'' (FFile f)) k w = form_of f [(k, w)]"
  by (simp add: fd_append_if_def fd_append_def form_of_def)

lemmas runPrev_unfold = runPrev_try_def Let_def form_of_two
lemmas runLogit_unfold = runLogit_try_def Let_def form_of_two
lemmas runRecode_unfold = runRecode_try_def Let_def form_of_one

lemma requests_of_snoc: "requests_of (es @ [SetBusy c]) = requests_of es"
  by (induction es rule: requests_of.induct) simp_all

lemma requests_of_busy_try_finally:
  "requests_of (effects (busy_try_finally b)) = requests_of (fst b)"
  by (simp add: busy_try_finally_def requests_of_snoc)

lemma final_state_busy_try_finally:
  "final_state s (busy_try_finally b) = (foldl apply_effect (s\<lparr>busy := True\<rparr>) (fst b))\<lparr>busy := False\<rparr>"
  by (simp add: final_state_def busy_try_finally_def)

lemma requests_runPrev_try:
  "\<forall>r \<in> set (requests_of (fst (runPrev_try e f b w))).
      body r = form_of f [(''by'', b), (''weight_col'', w)]
      \<and> url r \<in> {API_BASE e @ ''/prevalence'', API_BASE e @ ''/plot/prevalence''}"
  apply (simp only: runPrev_unfold)
  apply (simp split: sum.split)
  done

lemma requests_runLogit_try:
  "\<forall>r \<in> set (requests_of (fst (runLogit_try e f c w))).
      body r = form_of f [(''covars_csv'', c), (''weight_col'', w)] \<and> url r = API_BASE e @ ''/logit''"
  apply (simp only: runLogit_unfold)
  apply (simp split: sum.split)
  done

lemma requests_runRecode_try:
  "\<forall>r \<in> set (requests_of (fst (runRecode_try e f w))).
      body r = form_of f [(''weight_col'', w)] \<and> url r = API_BASE e @ ''/recode''"
  apply (simp only: runRecode_unfold)
  apply (simp split: sum.split)
  done

lemma some_request_runPrev_try: "requests_of (fst (runPrev_try e f b w)) \<noteq> []"
  apply (simp only: runPrev_unfold)
  apply (simp split: sum.split)
  done

lemma some_request_runLogit_try: "requests_of (fst (runLogit_try e f c w)) \<noteq> []"
  apply (simp only: runLogit_unfold)
  apply (simp split: sum.split)
  done

lemma some_request_runRecode_try: "requests_of (fst (runRecode_try e f w)) \<noteq> []"
  apply (simp only: runRecode_unfold)
  apply (simp split: sum.split)
  done

lemma requests_runPrev:
  "r \<in> set (requests_of (effects (runPrev e s))) \<Longrightarrow>
     \<exists>f. file' s = Some f \<and> body r = form_of f [(''by'', by' s), (''weight_col'', weightCol s)]
       \<and> url r \<in> {API_BASE e @ ''/prevalence'', API_BASE e @ ''/plot/prevalence''}"
  using requests_runPrev_try [of e _ "by' s" "weightCol s"]
  by (cases "file' s") (simp_all add: runPrev_def requests_of_busy_try_finally)

lemma requests_runLogit:
  "r \<in> set (requests_of (effects (runLogit e s))) \<Longrightarrow>
     \<exists>f. file' s = Some f \<and> body r = form_of f [(''covars_csv'', covars s), (''weight_col'', weightCol s)]
       \<and> url r = API_BASE e @ ''/logit''"
  using requests_runLogit_try [of e _ "covars s" "weightCol s"]
  by (cases "file' s") (simp_all add: runLogit_def requests_of_busy_try_finally)

lemma requests_runRecode:
  "r \<in> set (requests_of (effects (runRecode e s))) \<Longrightarrow>
     \<exists>f. file' s = Some f \<and> body r = form_of f [(''weight_col'', weightCol s)]
       \<and> url r = API_BASE e @ ''/recode''"
  using requests_runRecode_try [of e _ "weightCol s"]
  by (cases "file' s") (simp_all add: runRecode_def requests_of_busy_try_finally)


lemmas example_defs =
  example_state_def initial_state_def example_env_def example_server_def API_BASE_def

lemma fd_getAll_form_of:
  "fd_getAll (form_of f kvs) k =
     (if k = ''file'' then [FFile f] else [])
     @ map (\<lambda>kv. FText (snd kv)) (filter (\<lambda>kv. fst kv = k \<and> snd kv \<noteq> []) kvs)"
proof -
  have "map snd (filter (\<lambda>kv. fst kv = k) (map (\<lambda>kv. (fst kv, FText (snd kv))) xs))
          = map (\<lambda>kv. FText (snd kv)) (filter (\<lambda>kv. fst kv = k) xs)" for xs :: "(string \<times> string) list"
    by (induction xs) auto
  then show ?thesis
    by (auto simp: form_of_def fd_getAll_def conj_commute)
qed

lemma busy_final_state_busy_try_finally:
  "busy (final_state s (busy_try_finally b)) = False"
  by (simp add: final_state_busy_try_finally)

text \<open>
  C4. With no file chosen, each of \<open>runPrev\<close>, \<open>runLogit\<close> and \<open>runRecode\<close> returns at
  once: it issues no request, calls no state setter (so \<open>prevRows\<close>, \<open>orRows\<close>,
  \<open>plotUrl\<close> and \<open>busy\<close> are what they were) and its promise resolves.
\<close>

theorem no_file_no_effect:
  assumes "file' s = None"
  shows "effects (runPrev e s) = [] \<and> outcome (runPrev e s) = Returned \<and> final_state s (runPrev e s) = s
       \<and> effects (runLogit e s) = [] \<and> outcome (runLogit e s) = Returned \<and> final_state s (runLogit e s) = s
       \<and> effects (runRecode e s) = [] \<and> outcome (runRecode e s) = Returned \<and> final_state s (runRecode e s) = s"
  using assms by (simp add: runPrev_def runLogit_def runRecode_def final_state_def)

theorem no_file_no_effect_witness:
  "file' busy_no_file = None
   \<and> effects (runPrev example_env busy_no_file) = []
   \<and> outcome (runLogit example_env busy_no_file) = Returned
   \<and> final_state busy_no_file (runRecode example_env busy_no_file) = busy_no_file"
proof -
  have h: "file' busy_no_file = None"
    by (simp add: busy_no_file_def initial_state_def)
  from h no_file_no_effect [OF h, of example_env] show ?thesis by simp
qed

text \<open>
  C5. The weight column starts as \<open>_LLCPWT\<close>, and every request a handler issues (they go
  to the prevalence, plot, regression and recode endpoints) carries the weight column of
  the state the handler was started in, whenever it is not empty, as its one
  \<open>weight_col\<close> entry. A handler started with a file does issue a request.
\<close>

theorem weight_col_default_and_sent:
  "weightCol initial_state = ''_LLCPWT''
   \<and> (\<forall>r \<in> set (requests_of (effects (runPrev e s)) @ requests_of (effects (runLogit e s))
                     @ requests_of (effects (runRecode e s))).
        url r \<in> {API_BASE e @ ''/prevalence'', API_BASE e @ ''/plot/prevalence'',
                    API_BASE e @ ''/logit'', API_BASE e @ ''/recode''}
        \<and> (weightCol s \<noteq> [] \<longrightarrow> fd_getAll (body r) ''weight_col'' = [FText (weightCol s)]))
   \<and> (file' s \<noteq> None \<longrightarrow>
        requests_of (effects (runPrev e s)) \<noteq> [] \<and> requests_of (effects (runLogit e s)) \<noteq> []
      \<and> requests_of (effects (runRecode e s)) \<noteq> [])"
proof (intro conjI ballI)
  show "weightCol initial_state = ''_LLCPWT''"
    by (simp add: initial_state_def)
next
  show "file' s \<noteq> None \<longrightarrow>
        requests_of (effects (runPrev e s)) \<noteq> [] \<and> requests_of (effects (runLogit e s)) \<noteq> []
      \<and> requests_of (effects (runRecode e s)) \<noteq> []"
    by (cases "file' s")
       (simp_all add: runPrev_def runLogit_def runRecode_def requests_of_busy_try_finally
          some_request_runPrev_try some_request_runLogit_try some_request_runRecode_try)
next
  fix r
  assume "r \<in> set (requests_of (effects (runPrev e s)) @ requests_of (effects (runLogit e s))
                     @ requests_of (effects (runRecode e s)))"
  then consider "r \<in> set (requests_of (effects (runPrev e s)))"
    | "r \<in> set (requests_of (effects (runLogit e s)))"
    | "r \<in> set (requests_of (effects (runRecode e s)))"
    by auto
  then have "url r \<in> {API_BASE e @ ''/prevalence'', API_BASE e @ ''/plot/prevalence'',
                    API_BASE e @ ''/logit'', API_BASE e @ ''/recode''}
        \<and> (weightCol s \<noteq> [] \<longrightarrow> fd_getAll (body r) ''weight_col'' = [FText (weightCol s)])"
  proof cases
    case 1
    from requests_runPrev [OF 1] show ?thesis by (auto simp: fd_getAll_form_of)
  next
    case 2
    from requests_runLogit [OF 2] show ?thesis by (auto simp: fd_getAll_form_of)
  next
    case 3
    from requests_runRecode [OF 3] show ?thesis by (auto simp: fd_getAll_form_of)
  qed
  then show "url r \<in> {API_BASE e @ ''/prevalence'', API_BASE e @ ''/plot/prevalence'',
                    API_BASE e @ ''/logit'', API_BASE e @ ''/recode''}"
    and "weightCol s \<noteq> [] \<longrightarrow> fd_getAll (body r) ''weight_col'' = [FText (weightCol s)]"
    by simp_all
qed

lemma example_runPrev:
  "runPrev example_env example_state =
     \<lparr> effects =
         [SetBusy True,
          Fetch \<lparr> url = ''http://localhost:8000/prevalence'', http_method = ''POST'',
                  body = form_of example_file [(''by'', ''sex''), (''weight_col'', ''_LLCPWT'')] \<rparr>,
          SetPrevRows (JArr (map js_of_PrevRow example_PrevRows)),
          Fetch \<lparr> url = ''http://localhost:8000/plot/prevalence'', http_method = ''POST'',
                  body = form_of example_file [(''by'', ''sex''), (''weight_col'', ''_LLCPWT'')] \<rparr>,
          SetPlotUrl ''blob:plot'',
          SetBusy False],
       outcome = Returned \<rparr>"
  apply (simp only: runPrev_def runPrev_unfold)
  apply (simp add: example_defs busy_try_finally_def)
  done

lemma example_runLogit:
  "runLogit example_env example_state =
     \<lparr> effects =
         [SetBusy True,
          Fetch \<lparr> url = ''http://localhost:8000/logit'', http_method = ''POST'',
                  body = form_of example_file [(''covars_csv'', ''C(sex)''), (''weight_col'', ''_LLCPWT'')] \<rparr>,
          SetOrRows (JArr [js_of_ORRow example_ORRow]),
          SetBusy False],
       outcome = Returned \<rparr>"
  apply (simp only: runLogit_def runLogit_unfold)
  apply (simp add: example_defs busy_try_finally_def js_or_def)
  done

lemma example_runRecode:
  "runRecode example_env example_state =
     \<lparr> effects =
         [SetBusy True,
          Fetch \<lparr> url = ''http://localhost:8000/recode'', http_method = ''POST'',
                  body = form_of example_file [(''weight_col'', ''_LLCPWT'')] \<rparr>,
          Alert (JNum 1) (JObj [(''t2d_binary'', JNum 1)]),
          SetBusy False],
       outcome = Returned \<rparr>"
  apply (simp only: runRecode_def runRecode_unfold)
  apply (simp add: example_defs busy_try_finally_def)
  done

theorem weight_col_default_and_sent_witness:
  "requests_of (effects (runRecode example_env example_state))
     = [\<lparr> url = ''http://localhost:8000/recode'', http_method = ''POST'',
          body = [(''file'', FFile example_file), (''weight_col'', FText ''_LLCPWT'')] \<rparr>]
   \<and> weightCol example_state \<noteq> []
   \<and> fd_getAll [(''file'', FFile example_file), (''weight_col'', FText ''_LLCPWT'')] ''weight_col''
       = [FText (weightCol example_state)]"
proof -
  let ?r = "\<lparr> url = ''http://localhost:8000/recode'', http_method = ''POST'',
          body = [(''file'', FFile example_file), (''weight_col'', FText ''_LLCPWT'')] \<rparr>"
  have r: "requests_of (effects (runRecode example_env example_state)) = [?r]"
    by (simp add: example_runRecode form_of_def)
  have w: "weightCol example_state \<noteq> []"
    by (simp add: example_defs)
  have m: "?r \<in> set (requests_of (effects (runPrev example_env example_state))
                     @ requests_of (effects (runLogit example_env example_state))
                     @ requests_of (effects (runRecode example_env example_state)))"
    by (simp add: r)
  from weight_col_default_and_sent [of example_env example_state] m w
  have "fd_getAll (body ?r) ''weight_col'' = [FText (weightCol example_state)]"
    by blast
  with r w show ?thesis by simp
qed

text \<open>
  C7. When the prevalence request and its decoding succeed with \<open>data\<close>, the handler calls
  \<open>setPrevRows(data)\<close> before it issues the plot request, and no later step undoes it:
  whatever the plot request and its decoding do, \<open>prevRows\<close> is \<open>data\<close> when the handler
  has settled. If it settles by throwing (then the plot step threw), \<open>plotUrl\<close> is what it
  was and \<open>busy\<close> is down.
\<close>

theorem table_kept_when_plot_fails:
  assumes "file' s = Some f"
    and "fetch e \<lparr> url = API_BASE e @ ''/prevalence'', http_method = ''POST'',
                   body = form_of f [(''by'', by' s), (''weight_col'', weightCol s)] \<rparr> = Inr res"
    and "json res = Inr data"
  shows "(\<exists>req plotReq rest.
            effects (runPrev e s) = SetBusy True # Fetch req # SetPrevRows data # Fetch plotReq # rest
            \<and> url req = API_BASE e @ ''/prevalence''
            \<and> url plotReq = API_BASE e @ ''/plot/prevalence''
            \<and> (rest = [SetBusy False] \<or> (\<exists>u. rest = [SetPlotUrl u, SetBusy False])))
       \<and> prevRows (final_state s (runPrev e s)) = data
       \<and> (\<forall>x. outcome (runPrev e s) = Threw x \<longrightarrow>
             prevRows (final_state s (runPrev e s)) = data
             \<and> plotUrl (final_state s (runPrev e s)) = plotUrl s
             \<and> \<not> busy (final_state s (runPrev e s)))"
  using assms
  apply (simp only: runPrev_def runPrev_unfold)
  apply (simp add: busy_try_finally_def final_state_def split: sum.split)
  done

theorem table_kept_when_plot_fails_witness:
  "file' example_state = Some example_file
   \<and> outcome (runPrev plot_down_env example_state) = Threw TypeError
   \<and> prevRows (final_state example_state (runPrev plot_down_env example_state))
       = JArr (map js_of_PrevRow example_PrevRows)
   \<and> plotUrl (final_state example_state (runPrev plot_down_env example_state)) = []"
proof -
  have f: "file' example_state = Some example_file"
    by (simp add: plot_down_env_def example_defs)
  have r: "fetch plot_down_env
             \<lparr> url = API_BASE plot_down_env @ ''/prevalence'', http_method = ''POST'',
               body = form_of example_file [(''by'', by' example_state), (''weight_col'', weightCol example_state)] \<rparr>
           = Inr \<lparr> json = Inr (JArr (map js_of_PrevRow example_PrevRows)), blob = Inl TypeError \<rparr>"
    by (simp add: plot_down_env_def example_defs)
  have t: "outcome (runPrev plot_down_env example_state) = Threw TypeError"
    apply (simp only: runPrev_def runPrev_unfold)
    apply (simp add: plot_down_env_def example_defs busy_try_finally_def)
    done
  have p: "plotUrl example_state = []"
    by (simp add: plot_down_env_def example_defs)
  from table_kept_when_plot_fails [OF f r] t p f show ?thesis by simp
qed

text \<open>
  C6 (as stated it fails, see the counterexample). What holds: every request carries the
  file, once; a prevalence or plot request carries \<open>by\<close> exactly when the grouping column
  is not empty and never \<open>covars_csv\<close>; a regression request carries \<open>covars_csv\<close> exactly
  when the covariate list is not empty and never \<open>by\<close>; a recode request carries neither;
  each of them carries \<open>weight_col\<close> exactly when the weight column is not empty. An entry
  that is carried is carried once, with the current value.
\<close>

theorem form_entries_per_endpoint:
  "(\<forall>r \<in> set (requests_of (effects (runPrev e s))).
       fd_getAll (body r) ''file'' = map FFile (case file' s of None \<Rightarrow> [] | Some f \<Rightarrow> [f])
     \<and> fd_getAll (body r) ''by'' = (if by' s \<noteq> [] then [FText (by' s)] else [])
     \<and> fd_getAll (body r) ''weight_col'' = (if weightCol s \<noteq> [] then [FText (weightCol s)] else [])
     \<and> fd_getAll (body r) ''covars_csv'' = [])
   \<and> (\<forall>r \<in> set (requests_of (effects (runLogit e s))).
       fd_getAll (body r) ''file'' = map FFile (case file' s of None \<Rightarrow> [] | Some f \<Rightarrow> [f])
     \<and> fd_getAll (body r) ''covars_csv'' = (if covars s \<noteq> [] then [FText (covars s)] else [])
     \<and> fd_getAll (body r) ''weight_col'' = (if weightCol s \<noteq> [] then [FText (weightCol s)] else [])
     \<and> fd_getAll (body r) ''by'' = [])
   \<and> (\<forall>r \<in> set (requests_of (effects (runRecode e s))).
       fd_getAll (body r) ''file'' = map FFile (case file' s of None \<Rightarrow> [] | Some f \<Rightarrow> [f])
     \<and> fd_getAll (body r) ''weight_col'' = (if weightCol s \<noteq> [] then [FText (weightCol s)] else [])
     \<and> fd_getAll (body r) ''by'' = []
     \<and> fd_getAll (body r) ''covars_csv'' = [])"
proof (intro conjI ballI)
  fix r
  assume "r \<in> set (requests_of (effects (runPrev e s)))"
  from requests_runPrev [OF this]
  show "fd_getAll (body r) ''file'' = map FFile (case file' s of None \<Rightarrow> [] | Some f \<Rightarrow> [f])"
    and "fd_getAll (body r) ''by'' = (if by' s \<noteq> [] then [FText (by' s)] else [])"
    and "fd_getAll (body r) ''weight_col'' = (if weightCol s \<noteq> [] then [FText (weightCol s)] else [])"
    and "fd_getAll (body r) ''covars_csv'' = []"
    by (auto simp: fd_getAll_form_of)
next
  fix r
  assume "r \<in> set (requests_of (effects (runLogit e s)))"
  from requests_runLogit [OF this]
  show "fd_getAll (body r) ''file'' = map FFile (case file' s of None \<Rightarrow> [] | Some f \<Rightarrow> [f])"
    and "fd_getAll (body r) ''covars_csv'' = (if covars s \<noteq> [] then [FText (covars s)] else [])"
    and "fd_getAll (body r) ''weight_col'' = (if weightCol s \<noteq> [] then [FText (weightCol s)] else [])"
    and "fd_getAll (body r) ''by'' = []"
    by (auto simp: fd_getAll_form_of)
next
  fix r
  assume "r \<in> set (requests_of (effects (runRecode e s)))"
  from requests_runRecode [OF this]
  show "fd_getAll (body r) ''file'' = map FFile (case file' s of None \<Rightarrow> [] | Some f \<Rightarrow> [f])"
    and "fd_getAll (body r) ''weight_col'' = (if weightCol s \<noteq> [] then [FText (weightCol s)] else [])"
    and "fd_getAll (body r) ''by'' = []"
    and "fd_getAll (body r) ''covars_csv'' = []"
    by (auto simp: fd_getAll_form_of)
qed

theorem form_entries_per_endpoint_witness:
  "requests_of (effects (runLogit example_env example_state))
     = [\<lparr> url = ''http://localhost:8000/logit'', http_method = ''POST'',
          body = [(''file'', FFile example_file), (''covars_csv'', FText ''C(sex)''),
                  (''weight_col'', FText ''_LLCPWT'')] \<rparr>]
   \<and> covars example_state = ''C(sex)''
   \<and> fd_getAll [(''file'', FFile example_file), (''covars_csv'', FText ''C(sex)''),
                  (''weight_col'', FText ''_LLCPWT'')] ''covars_csv'' = [FText ''C(sex)'']
   \<and> fd_getAll [(''file'', FFile example_file), (''covars_csv'', FText ''C(sex)''),
                  (''weight_col'', FText ''_LLCPWT'')] ''by'' = []"
proof -
  let ?r = "\<lparr> url = ''http://localhost:8000/logit'', http_method = ''POST'',
          body = [(''file'', FFile example_file), (''covars_csv'', FText ''C(sex)''),
                  (''weight_col'', FText ''_LLCPWT'')] \<rparr>"
  have r: "requests_of (effects (runLogit example_env example_state)) = [?r]"
    by (simp add: example_runLogit form_of_def)
  have c: "covars example_state = ''C(sex)''"
    by (simp add: example_defs)
  have m: "?r \<in> set (requests_of (effects (runLogit example_env example_state)))"
    by (simp add: r)
  from form_entries_per_endpoint [of example_env example_state] m
  have "fd_getAll (body ?r) ''covars_csv'' = (if covars example_state \<noteq> [] then [FText (covars example_state)] else [])
      \<and> fd_getAll (body ?r) ''by'' = []"
    by blast
  with r c show ?thesis by simp
qed

text \<open>
  The counterexample to C6 as stated: a grouping column is typed in, and the regression
  request is built without a \<open>by\<close> entry.
\<close>

theorem by_not_sent_with_regression:
  "by' example_state = ''sex''
   \<and> requests_of (effects (runLogit example_env example_state))
       = [\<lparr> url = ''http://localhost:8000/logit'', http_method = ''POST'',
            body = [(''file'', FFile example_file), (''covars_csv'', FText ''C(sex)''),
                    (''weight_col'', FText ''_LLCPWT'')] \<rparr>]
   \<and> \<not> fd_has [(''file'', FFile example_file), (''covars_csv'', FText ''C(sex)''),
                 (''weight_col'', FText ''_LLCPWT'')] ''by''"
  by (simp add: example_runLogit form_of_def fd_has_def) (simp add: example_defs)








text \<open>
  C10 (as stated it fails, see the counterexample). What holds, once the regression
  request and its decoding succeed with \<open>data\<close>: if reading \<open>data.table\<close> gives
  \<open>undefined\<close> (no such field) or another falsy value, the handler calls
  \<open>setOrRows(null)\<close> and returns, and no regression table is shown any more; the read
  gives a value for every \<open>data\<close> that is not \<open>null\<close>. For \<open>data = null\<close> the read throws
  a TypeError, \<open>orRows\<close> is what it was, and \<open>busy\<close> is down.
\<close>

theorem missing_table_gives_null:
  assumes "file' s = Some f"
    and "fetch e \<lparr> url = API_BASE e @ ''/logit'', http_method = ''POST'',
                   body = form_of f [(''covars_csv'', covars s), (''weight_col'', weightCol s)] \<rparr> = Inr res"
    and "json res = Inr data"
  shows "(\<forall>t. get_field data ''table'' = Inr t \<longrightarrow> \<not> truthy t \<longrightarrow>
            orRows (final_state s (runLogit e s)) = JNull
            \<and> outcome (runLogit e s) = Returned
            \<and> SetOrRows JNull \<in> set (effects (runLogit e s))
            \<and> render_orRows (final_state s (runLogit e s)) = Inr (Skipped JNull))
       \<and> (data \<noteq> JNull \<longrightarrow> data \<noteq> JUndefined \<longrightarrow> (\<exists>t. get_field data ''table'' = Inr t))
       \<and> (data = JNull \<longrightarrow>
            outcome (runLogit e s) = Threw TypeError
            \<and> orRows (final_state s (runLogit e s)) = orRows s
            \<and> \<not> busy (final_state s (runLogit e s)))"
proof (intro conjI allI impI)
  fix t
  assume t: "get_field data ''table'' = Inr t" "\<not> truthy t"
  from assms t have eff: "effects (runLogit e s)
      = [SetBusy True,
         Fetch \<lparr> url = API_BASE e @ ''/logit'', http_method = ''POST'',
                 body = form_of f [(''covars_csv'', covars s), (''weight_col'', weightCol s)] \<rparr>,
         SetOrRows JNull, SetBusy False]"
    and out: "outcome (runLogit e s) = Returned"
    by (simp_all only: runLogit_def runLogit_unfold)
       (simp_all add: busy_try_finally_def js_or_def)
  from out show "outcome (runLogit e s) = Returned" .
  from eff show null: "orRows (final_state s (runLogit e s)) = JNull"
    by (simp add: final_state_def)
  show "render_orRows (final_state s (runLogit e s)) = Inr (Skipped JNull)"
    by (simp add: render_orRows_def render_table_def null)
  from eff show "SetOrRows JNull \<in> set (effects (runLogit e s))"
    by simp
next
  assume "data \<noteq> JNull" "data \<noteq> JUndefined"
  then show "\<exists>t. get_field data ''table'' = Inr t"
    by (cases data) simp_all
next
  assume "data = JNull"
  with assms show "outcome (runLogit e s) = Threw TypeError"
    by (simp only: runLogit_def runLogit_unfold) (simp add: busy_try_finally_def)
  from \<open>data = JNull\<close> assms show "orRows (final_state s (runLogit e s)) = orRows s"
    by (simp only: runLogit_def runLogit_unfold) (simp add: busy_try_finally_def final_state_def)
  from assms(1) show "\<not> busy (final_state s (runLogit e s))"
    by (simp add: runLogit_def busy_final_state_busy_try_finally)
qed

theorem missing_table_gives_null_witness:
  "file' showing_table = Some example_file
   \<and> get_field (JObj [(''detail'', JStr ''bad covariate'')]) ''table'' = Inr JUndefined
   \<and> \<not> truthy JUndefined
   \<and> orRows showing_table = JArr [js_of_ORRow example_ORRow]
   \<and> orRows (final_state showing_table (runLogit error_body_env showing_table)) = JNull
   \<and> outcome (runLogit error_body_env showing_table) = Returned"
proof -
  have f: "file' showing_table = Some example_file"
    by (simp add: showing_table_def example_defs)
  have r: "fetch error_body_env
             \<lparr> url = API_BASE error_body_env @ ''/logit'', http_method = ''POST'',
               body = form_of example_file [(''covars_csv'', covars showing_table), (''weight_col'', weightCol showing_table)] \<rparr>
           = Inr \<lparr> json = Inr (JObj [(''detail'', JStr ''bad covariate'')]), blob = Inl TypeError \<rparr>"
    by (simp add: error_body_env_def)
  have g: "get_field (JObj [(''detail'', JStr ''bad covariate'')]) ''table'' = Inr JUndefined"
    by simp
  have o: "orRows showing_table = JArr [js_of_ORRow example_ORRow]"
    by (simp add: showing_table_def)
  from missing_table_gives_null [OF f r] g f o show ?thesis by simp
qed

text \<open>
  The counterexample to C10 as stated: the regression endpoint answers with the JSON body
  \<open>null\<close>, which has no \<open>table\<close> field; the handler throws, and the table that was on
  display stays.
\<close>

theorem null_body_keeps_old_table:
  "orRows showing_table = JArr [js_of_ORRow example_ORRow]
   \<and> requests_of (effects (runLogit null_body_env showing_table))
       = [\<lparr> url = ''http://localhost:8000/logit'', http_method = ''POST'',
            body = form_of example_file [(''covars_csv'', ''C(sex)''), (''weight_col'', ''_LLCPWT'')] \<rparr>]
   \<and> fetch null_body_env
        \<lparr> url = ''http://localhost:8000/logit'', http_method = ''POST'',
          body = form_of example_file [(''covars_csv'', ''C(sex)''), (''weight_col'', ''_LLCPWT'')] \<rparr>
       = Inr \<lparr> json = Inr JNull, blob = Inl TypeError \<rparr>
   \<and> outcome (runLogit null_body_env showing_table) = Threw TypeError
   \<and> orRows (final_state showing_table (runLogit null_body_env showing_table))
       = JArr [js_of_ORRow example_ORRow]
   \<and> JArr [js_of_ORRow example_ORRow] \<noteq> JNull"
  apply (simp only: runLogit_def runLogit_unfold)
  apply (simp add: showing_table_def null_body_env_def example_defs busy_try_finally_def final_state_def)
  done

section \<open>Recoding twice\<close>

lemma recode_row_snoc_free:
  "c \<notin> derived ` set rules \<Longrightarrow> recode_row rules r c = r c"
  by (induction rules arbitrary: r) (simp_all add: recode_row_def apply_rule_def)

lemma recode_row_Cons: "recode_row (ru # rules) r = recode_row rules (apply_rule r ru)"
  by (simp add: recode_row_def)

lemma recode_row_absorbs:
  assumes "sources_intact rules"
    and "\<And>c. b c = r c \<or> (b c = recode_row rules r c \<and> c \<in> derived ` set rules)"
  shows "recode_row rules b = recode_row rules r"
  using assms
proof (induction rules arbitrary: b r)
  case Nil
  then have "b c = r c" for c by (auto simp: recode_row_def)
  then show ?case by (simp add: recode_row_def fun_eq_iff)
next
  case (Cons ru rules)
  from Cons.prems(1) have src: "source ru \<notin> derived ` set (ru # rules)"
    and intact: "sources_intact rules"
    by (auto simp: list_all_iff)
  from Cons.prems(2) [of "source ru"] src have same: "b (source ru) = r (source ru)"
    by blast
  have "recode_row rules (apply_rule b ru) = recode_row rules (apply_rule r ru)"
  proof (rule Cons.IH [OF intact])
    fix c
    show "apply_rule b ru c = apply_rule r ru c
          \<or> (apply_rule b ru c = recode_row rules (apply_rule r ru) c \<and> c \<in> derived ` set rules)"
    proof (cases "c = derived ru")
      case True
      then show ?thesis using same by (simp add: apply_rule_def get_cell_def)
    next
      case False
      with Cons.prems(2) [of c] show ?thesis
        by (auto simp: apply_rule_def recode_row_Cons)
    qed
  qed
  then show ?case by (simp add: recode_row_Cons)
qed

lemma recode_row_idem:
  "sources_intact rules \<Longrightarrow> recode_row rules (recode_row rules r) = recode_row rules r"
  by (rule recode_row_absorbs) (auto simp: recode_row_snoc_free)

text \<open>
  C8. Under a table of rules that leaves the source columns intact, recoding a recoded
  dataset changes nothing: every column, the derived ones included, has the value the
  first recode gave it.
\<close>

theorem recode_idempotent:
  assumes "sources_intact rules"
  shows "recode rules (recode rules ds) = recode rules ds"
  using assms by (simp add: recode_def recode_row_idem)

theorem recode_idempotent_witness:
  "sources_intact example_rules
   \<and> recode example_rules (recode example_rules [example_row]) = recode example_rules [example_row]
   \<and> map (\<lambda>r. (r ''sex'', r ''BMI'', r ''BMI_cat'')) (recode example_rules [example_row])
       = [(Some (Category ''Female''), Some (Number 25), Some (Category ''25 to 30''))]"
proof -
  have i: "sources_intact example_rules"
    by (simp add: example_rules_def)
  have v: "map (\<lambda>r. (r ''sex'', r ''BMI'', r ''BMI_cat'')) (recode example_rules [example_row])
       = [(Some (Category ''Female''), Some (Number 25), Some (Category ''25 to 30''))]"
    by (simp add: recode_def recode_row_def apply_rule_def example_rules_def example_row_def
          get_cell_def code_table_def)
  from recode_idempotent [OF i, of "[example_row]"] i v show ?thesis by simp
qed


section \<open>The result tables against the declared row types\<close>

lemma map_exn_map:
  "(\<And>x. x \<in> set xs \<Longrightarrow> f (g x) = Inr (h x)) \<Longrightarrow> map_exn f (map g xs) = Inr (map h xs)"
  by (induction xs) (simp_all add: and_then_def)

lemma prev_tr_PrevRow:
  "prev_tr (js_of_PrevRow r) = Inr [[StringOf (JStr (group r))], [ToFixed (prev r) 3]]"
  by (simp add: prev_tr_def js_of_PrevRow_def and_then_def)

lemma or_tr_ORRow:
  "or_tr (js_of_ORRow r) =
     Inr [[Child (JStr (term' r))], [ToFixed (OR r) 2],
          [ToFixed (OR_low r) 2, EnDash, ToFixed (OR_high r) 2], [ToExponential (P_z r) 2]]"
  by (simp add: or_tr_def js_of_ORRow_def and_then_def)

lemma render_PrevRows:
  "render_table prev_tr (JArr (map js_of_PrevRow rows))
     = Inr (Table (map (\<lambda>r. [[StringOf (JStr (group r))], [ToFixed (prev r) 3]]) rows))"
  by (simp add: render_table_def map_exn_map [where h = "\<lambda>r. [[StringOf (JStr (group r))], [ToFixed (prev r) 3]]"]
        prev_tr_PrevRow and_then_def)

lemma render_ORRows:
  "render_table or_tr (JArr (map js_of_ORRow rows))
     = Inr (Table (map (\<lambda>r. [[Child (JStr (term' r))], [ToFixed (OR r) 2],
          [ToFixed (OR_low r) 2, EnDash, ToFixed (OR_high r) 2], [ToExponential (P_z r) 2]]) rows))"
  by (simp add: render_table_def map_exn_map [where h = "\<lambda>r. [[Child (JStr (term' r))], [ToFixed (OR r) 2],
          [ToFixed (OR_low r) 2, EnDash, ToFixed (OR_high r) 2], [ToExponential (P_z r) 2]]"]
        or_tr_ORRow and_then_def)

lemma regression_terms:
  assumes "regression mle name Phi ds covs ocol wcol = Inr rows"
  shows "map term' rows = map name (model_terms ds covs)"
  using assms
  by (auto simp: regression_def Let_def result_row_def o_def split: sum.splits)

text \<open>
  C2. The regression rows are one per model term in the order of the terms, the intercept
  first, then for each covariate in the order given its slope or its indicator terms; a
  row has exactly the five fields term, OR, OR_low, OR_high and P>|z| (the spec's
  odds_ratio, ci_low, ci_high and p_value under the client's names). When the response
  carries this sequence as its \<open>table\<close>, the client stores exactly it in \<open>orRows\<close> and
  shows one table row per regression row, in order, from those five fields.
\<close>

theorem regression_rows_consumed:
  assumes "regression mle name Phi ds covs ocol wcol = Inr rows"
    and "file' s = Some f"
    and "fetch e \<lparr> url = API_BASE e @ ''/logit'', http_method = ''POST'',
                   body = form_of f [(''covars_csv'', covars s), (''weight_col'', weightCol s)] \<rparr> = Inr res"
    and "json res = Inr data"
    and "get_field data ''table'' = Inr (JArr (map js_of_ORRow rows))"
  shows "map term' rows
           = name Intercept # concat (map (map name \<circ> expand ds) covs)
       \<and> list_all (\<lambda>r. field_names (js_of_ORRow r) = Some [''term'', ''OR'', ''OR_low'', ''OR_high'', ''P>|z|'']) rows
       \<and> orRows (final_state s (runLogit e s)) = JArr (map js_of_ORRow rows)
       \<and> render_orRows (final_state s (runLogit e s))
           = Inr (Table (map (\<lambda>r. [[Child (JStr (term' r))], [ToFixed (OR r) 2],
                                   [ToFixed (OR_low r) 2, EnDash, ToFixed (OR_high r) 2],
                                   [ToExponential (P_z r) 2]]) rows))"
proof (intro conjI)
  show "map term' rows
           = name Intercept # concat (map (map name \<circ> expand ds) covs)"
    by (simp add: regression_terms [OF assms(1)] model_terms_def map_concat)
  show "list_all (\<lambda>r. field_names (js_of_ORRow r) = Some [''term'', ''OR'', ''OR_low'', ''OR_high'', ''P>|z|'']) rows"
    by (simp add: list_all_iff js_of_ORRow_def)
  from assms(2-5) have eff: "effects (runLogit e s)
      = [SetBusy True,
         Fetch \<lparr> url = API_BASE e @ ''/logit'', http_method = ''POST'',
                 body = form_of f [(''covars_csv'', covars s), (''weight_col'', weightCol s)] \<rparr>,
         SetOrRows (JArr (map js_of_ORRow rows)), SetBusy False]"
    by (simp only: runLogit_def runLogit_unfold) (simp add: busy_try_finally_def js_or_def)
  then show stored: "orRows (final_state s (runLogit e s)) = JArr (map js_of_ORRow rows)"
    by (simp add: final_state_def)
  show "render_orRows (final_state s (runLogit e s))
           = Inr (Table (map (\<lambda>r. [[Child (JStr (term' r))], [ToFixed (OR r) 2],
                                   [ToFixed (OR_low r) 2, EnDash, ToFixed (OR_high r) 2],
                                   [ToExponential (P_z r) 2]]) rows))"
    by (simp only: render_orRows_def stored render_ORRows)
qed


theorem regression_rows_consumed_witness:
  "regression flat_fit example_name half example_cohort [CategoricalCol ''age_group''] ''t2d_binary'' ''_LLCPWT''
     = Inr example_table
   \<and> file' example_state = Some example_file
   \<and> map term' example_table = [''Intercept'', ''age_group=18-44'', ''age_group=45-64'']
   \<and> orRows (final_state example_state (runLogit table_env example_state))
       = JArr (map js_of_ORRow example_table)"
proof -
  have ts: "model_terms example_cohort [CategoricalCol ''age_group'']
      = [Intercept, Indicator ''age_group'' (Category ''18-44''), Indicator ''age_group'' (Category ''45-64'')]"
    by (simp add: model_terms_def levels_def first_seen_def get_cell_def example_cohort_def)
  have g: "regression flat_fit example_name half example_cohort [CategoricalCol ''age_group''] ''t2d_binary'' ''_LLCPWT''
     = Inr example_table"
    by (simp add: regression_def Let_def ts flat_fit_def example_table_def)
  have f: "file' example_state = Some example_file"
    by (simp add: example_defs)
  have r: "fetch table_env
             \<lparr> url = API_BASE table_env @ ''/logit'', http_method = ''POST'',
               body = form_of example_file [(''covars_csv'', covars example_state), (''weight_col'', weightCol example_state)] \<rparr>
           = Inr \<lparr> json = Inr (JObj [(''table'', JArr (map js_of_ORRow example_table))]), blob = Inl TypeError \<rparr>"
    by (simp add: table_env_def)
  have t: "get_field (JObj [(''table'', JArr (map js_of_ORRow example_table))]) ''table''
             = Inr (JArr (map js_of_ORRow example_table))"
    by simp
  have n: "map term' example_table = [''Intercept'', ''age_group=18-44'', ''age_group=45-64'']"
    by (simp add: example_table_def result_row_def)
  from regression_rows_consumed [OF g f r _ t] g f n show ?thesis by simp
qed

lemma runPrev_stores:
  assumes "file' s = Some f"
    and "fetch e \<lparr> url = API_BASE e @ ''/prevalence'', http_method = ''POST'',
                   body = form_of f [(''by'', by' s), (''weight_col'', weightCol s)] \<rparr> = Inr res"
    and "json res = Inr data"
  shows "prevRows (final_state s (runPrev e s)) = data"
  using assms
  apply (simp only: runPrev_def runPrev_unfold)
  apply (simp add: busy_try_finally_def final_state_def split: sum.split)
  done

text \<open>
  C3. The prevalence rows are pairs of a group and its weighted proportion, one pair per
  observed group level whose weighted denominator is not zero, each level once, in
  first-seen order. When the response carries this sequence as objects with the two
  fields group and prev, the client stores exactly it in \<open>prevRows\<close> (whatever the plot
  step does afterwards) and shows one table row per pair, in order: the group label and
  the proportion.
\<close>

theorem prevalence_rows_consumed:
  assumes "prevalence ds ocol byc wcol = Inr gps"
    and "file' s = Some f"
    and "fetch e \<lparr> url = API_BASE e @ ''/prevalence'', http_method = ''POST'',
                   body = form_of f [(''by'', by' s), (''weight_col'', weightCol s)] \<rparr> = Inr res"
    and "json res = Inr (JArr (map js_of_PrevRow (map (to_PrevRow label) gps)))"
  shows "map fst gps = filter (\<lambda>g. weight_sum wcol (counted ocol byc g ds) \<noteq> 0) (observed_groups byc ds)
       \<and> distinct (map fst gps)
       \<and> map snd gps = map (prev_formula ds ocol byc wcol) (map fst gps)
       \<and> list_all (\<lambda>gp. field_names (js_of_PrevRow (to_PrevRow label gp)) = Some [''group'', ''prev'']) gps
       \<and> prevRows (final_state s (runPrev e s)) = JArr (map js_of_PrevRow (map (to_PrevRow label) gps))
       \<and> render_prevRows (final_state s (runPrev e s))
           = Inr (Table (map (\<lambda>gp. [[StringOf (JStr (label (fst gp)))], [ToFixed (snd gp) 3]]) gps))"
proof (intro conjI)
  note rows = prevalence_rows [OF assms(1)]
  show fst: "map fst gps = filter (\<lambda>g. weight_sum wcol (counted ocol byc g ds) \<noteq> 0) (observed_groups byc ds)"
    by (subst rows) (simp add: o_def)
  show "distinct (map fst gps)"
    unfolding fst by (simp add: distinct_observed_groups)
  show "map snd gps = map (prev_formula ds ocol byc wcol) (map fst gps)"
    by (subst (1 2) rows) (simp add: o_def)
  show "list_all (\<lambda>gp. field_names (js_of_PrevRow (to_PrevRow label gp)) = Some [''group'', ''prev'']) gps"
    by (simp add: list_all_iff js_of_PrevRow_def)
  show stored: "prevRows (final_state s (runPrev e s)) = JArr (map js_of_PrevRow (map (to_PrevRow label) gps))"
    by (rule runPrev_stores [OF assms(2-4)])
  show "render_prevRows (final_state s (runPrev e s))
           = Inr (Table (map (\<lambda>gp. [[StringOf (JStr (label (fst gp)))], [ToFixed (snd gp) 3]]) gps))"
    by (simp only: render_prevRows_def stored render_PrevRows) (simp add: to_PrevRow_def o_def)
qed

lemma example_survey_prevalence:
  "prevalence example_survey ''t2d_binary'' (Some ''sex'') ''_LLCPWT''
     = Inr [(Category ''Male'', 1 / 4), (Category ''Female'', 1 / 8)]"
  by (simp add: prevalence_def example_survey_def tally_def tally_row_def group_of_def outcome_of_def
        weight_of_def get_cell_def)

theorem prevalence_rows_consumed_witness:
  "prevalence example_survey ''t2d_binary'' (Some ''sex'') ''_LLCPWT''
     = Inr [(Category ''Male'', 1 / 4), (Category ''Female'', 1 / 8)]
   \<and> file' example_state = Some example_file
   \<and> outcome (runPrev plot_down_env example_state) = Threw TypeError
   \<and> prevRows (final_state example_state (runPrev plot_down_env example_state))
       = JArr [js_of_PrevRow \<lparr> group = ''Male'', prev = 1 / 4 \<rparr>, js_of_PrevRow \<lparr> group = ''Female'', prev = 1 / 8 \<rparr>]
   \<and> render_prevRows (final_state example_state (runPrev plot_down_env example_state))
       = Inr (Table [[[StringOf (JStr ''Male'')], [ToFixed (1 / 4) 3]],
                     [[StringOf (JStr ''Female'')], [ToFixed (1 / 8) 3]]])"
proof -
  have f: "file' example_state = Some example_file"
    by (simp add: plot_down_env_def example_defs)
  have r: "fetch plot_down_env
             \<lparr> url = API_BASE plot_down_env @ ''/prevalence'', http_method = ''POST'',
               body = form_of example_file [(''by'', by' example_state), (''weight_col'', weightCol example_state)] \<rparr>
           = Inr \<lparr> json = Inr (JArr (map js_of_PrevRow example_PrevRows)), blob = Inl TypeError \<rparr>"
    by (simp add: plot_down_env_def example_defs)
  have j: "json \<lparr> json = Inr (JArr (map js_of_PrevRow example_PrevRows)), blob = Inl TypeError \<rparr>
             = Inr (JArr (map js_of_PrevRow
                      (map (to_PrevRow example_label) [(Category ''Male'', 1 / 4), (Category ''Female'', 1 / 8)])))"
    by (simp add: example_PrevRows_def to_PrevRow_def)
  have t: "outcome (runPrev plot_down_env example_state) = Threw TypeError"
    apply (simp only: runPrev_def runPrev_unfold)
    apply (simp add: plot_down_env_def example_defs busy_try_finally_def)
    done
  from prevalence_rows_consumed [OF example_survey_prevalence f r j] example_survey_prevalence f t
  show ?thesis by (simp add: to_PrevRow_def)
qed

end
